theory Spec2Isabelle
  imports Complex_Main "HOL-Library.Product_Lexorder"
begin

section \<open>Data model\<close>

text \<open>
  The repository holds two Django applications with near-duplicate models:
  \<^verbatim>\<open>drivewise\<close> (compliance records keyed by vehicle, with a leaderboard) and
  \<^verbatim>\<open>expensetrackerapp\<close> (compliance records keyed by a driving session).

  A database table is a list of rows; the primary key of a row is its position in the
  list. \<^verbatim>\<open>objects.create\<close> appends a row, \<^verbatim>\<open>save()\<close> on a fetched row overwrites
  the position it was fetched from, and a foreign key is the position of the row it
  refers to. None of the modelled operations deletes a row. Wall-clock columns
  (\<^verbatim>\<open>recorded_at\<close>, \<^verbatim>\<open>detected_at\<close>, \<^verbatim>\<open>created_at\<close>, \<^verbatim>\<open>last_updated\<close>,
  \<^verbatim>\<open>session_start\<close>) are left out.
\<close>

record TrafficSign =
  sign_type :: string
  sign_value :: "string option"
  location :: "string option"
  is_active :: bool

record Vehicle =
  vehicle_id :: string
  vehicle_type :: string
  registration_number :: "string option"
  owner_name :: "string option"

text \<open>
  The columns that \<^verbatim>\<open>ComplianceRecord\<close> has in both applications. The two classes
  differ only in their owner column: \<^verbatim>\<open>vehicle\<close> (nullable) in drivewise,
  \<^verbatim>\<open>driving_session\<close> in expensetrackerapp.
\<close>

record ComplianceFields =
  traffic_sign :: nat
  speed_limit :: "int option"
  actual_speed :: "int option"
  no_horn_zone :: bool
  horn_applied :: bool
  seatbelt_required :: bool
  seatbelt_worn :: bool
  violation_type :: string
  severity :: string
  violation_description :: "string option"
  compliance_score :: int

record ComplianceRecord = ComplianceFields +
  vehicle :: "nat option"

record SessionComplianceRecord = ComplianceFields +
  driving_session :: nat

record DrivingSession =
  ds_vehicle :: nat
  ds_is_active :: bool

record RewardToken =
  rt_vehicle :: nat
  tokens_earned :: int
  tokens_spent :: int

section \<open>Compliance scorer\<close>

text \<open>
  \<^verbatim>\<open>ComplianceRecord.calculate_compliance_score\<close>; the body is the same, line for line,
  in \<^verbatim>\<open>drivewise/models.py\<close> and \<^verbatim>\<open>expensetrackerapp/models.py\<close>, so one definition
  over the shared columns embeds both. Python's truth test of a nullable integer
  (\<^verbatim>\<open>if self.speed_limit and self.actual_speed\<close>) is false for \<^verbatim>\<open>None\<close> and for 0.
\<close>

definition truthy :: "int option \<Rightarrow> bool" where
  "truthy v = (case v of None \<Rightarrow> False | Some n \<Rightarrow> n \<noteq> 0)"

definition calculate_compliance_score :: "'a ComplianceFields_scheme \<Rightarrow> int" where
  "calculate_compliance_score r =
     (let score = 100;
          score =
            (if truthy (speed_limit r) \<and> truthy (actual_speed r) then
               (case (speed_limit r, actual_speed r) of
                  (Some l, Some a) \<Rightarrow>
                    (if a > l then
                       (let score = score - 20
                        in if a > l + 20 then score - 10 else score)
                     else score)
                | _ \<Rightarrow> score)
             else score);
          score = (if no_horn_zone r \<and> horn_applied r then score - 15 else score);
          score = (if seatbelt_required r \<and> \<not> seatbelt_worn r then score - 25 else score)
      in max 0 score)"

text \<open>
  \<^verbatim>\<open>ComplianceRecord.save\<close>: the score column is overwritten from the other columns,
  then the row is written. A row without primary key is inserted at the end of the
  table, a row with one replaces the row stored under that key.
\<close>

definition prepare_save :: "'a ComplianceFields_scheme \<Rightarrow> 'a ComplianceFields_scheme" where
  "prepare_save r = r\<lparr>compliance_score := calculate_compliance_score r\<rparr>"

definition save_record ::
  "nat option \<Rightarrow> 'a ComplianceFields_scheme \<Rightarrow> 'a ComplianceFields_scheme list
     \<Rightarrow> 'a ComplianceFields_scheme list" where
  "save_record pk r tbl =
     (case pk of
        None \<Rightarrow> tbl @ [prepare_save r]
      | Some i \<Rightarrow> tbl[i := prepare_save r])"

subsection \<open>The penalties as the specification words them\<close>

definition speed_penalty :: "int option \<Rightarrow> int option \<Rightarrow> int" where
  "speed_penalty limit actual =
     (case (limit, actual) of
        (Some l, Some a) \<Rightarrow>
          (if l \<noteq> 0 \<and> a \<noteq> 0 \<and> a > l then 20 + (if a > l + 20 then 10 else 0) else 0)
      | _ \<Rightarrow> 0)"

definition horn_penalty :: "'a ComplianceFields_scheme \<Rightarrow> int" where
  "horn_penalty r = (if no_horn_zone r \<and> horn_applied r then 15 else 0)"

definition seatbelt_penalty :: "'a ComplianceFields_scheme \<Rightarrow> int" where
  "seatbelt_penalty r = (if seatbelt_required r \<and> \<not> seatbelt_worn r then 25 else 0)"

definition penalties :: "'a ComplianceFields_scheme \<Rightarrow> int" where
  "penalties r =
     speed_penalty (speed_limit r) (actual_speed r) + horn_penalty r + seatbelt_penalty r"

section \<open>Floating-point and decimal arithmetic\<close>

text \<open>
  The aggregates of a vehicle are Python floats, and the leaderboard stores them in
  \<^verbatim>\<open>DecimalField(max_digits=5, decimal_places=2)\<close> columns. Binary floating-point
  rounding is not modelled bit by bit. The values are rationals, and the three
  expressions that round are parameters of the model:
  \<^item> \<open>rate_round t v\<close> is \<^verbatim>\<open>round(((t - v) / t) * 100, 2)\<close>,
  \<^item> \<open>mean_round s n\<close> is \<^verbatim>\<open>round(s / n, 2)\<close>,
  \<^item> \<open>to_decimal x\<close> is the value the decimal column holds after a float \<open>x\<close> is saved.
  The literal \<^verbatim>\<open>100.0\<close> is the rational 100. Every property below holds for every
  choice of the three.
\<close>

record numerics =
  rate_round :: "int \<Rightarrow> int \<Rightarrow> rat"
  mean_round :: "int \<Rightarrow> int \<Rightarrow> rat"
  to_decimal :: "rat \<Rightarrow> rat"

text \<open>
  The same expressions evaluated on the rationals with round-half-even at two decimal
  places, which is what the float code yields whenever no binary rounding error comes
  in between. It serves to run the model on concrete inputs.
\<close>

definition round_half_even :: "rat \<Rightarrow> int" where
  "round_half_even x =
     (let f = \<lfloor>x\<rfloor>; d = x - of_int f
      in if d < 1 / 2 then f else if 1 / 2 < d then f + 1 else if even f then f else f + 1)"

definition round2 :: "rat \<Rightarrow> rat" where
  "round2 x = of_int (round_half_even (x * 100)) / 100"

definition exact_numerics :: numerics where
  "exact_numerics =
     \<lparr>rate_round = (\<lambda>t v. round2 ((of_int (t - v) / of_int t) * 100)),
      mean_round = (\<lambda>s n. round2 (of_int s / of_int n)),
      to_decimal = round2\<rparr>"

section \<open>Tables and lookups\<close>

text \<open>
  \<^verbatim>\<open>Model.objects.get(...)\<close> on a column that is not unique: no row, one row (its
  primary key), or \<^verbatim>\<open>MultipleObjectsReturned\<close>.
\<close>

datatype lookup = DoesNotExist | Found nat | MultipleObjectsReturned

definition get_row :: "('a \<Rightarrow> bool) \<Rightarrow> 'a list \<Rightarrow> lookup" where
  "get_row P tbl =
     (case filter (\<lambda>i. P (tbl ! i)) [0..<length tbl] of
        [] \<Rightarrow> DoesNotExist
      | [i] \<Rightarrow> Found i
      | _ \<Rightarrow> MultipleObjectsReturned)"

text \<open>
  A lookup on a unique column (\<^verbatim>\<open>Vehicle.vehicle_id\<close>, the one-to-one
  \<^verbatim>\<open>Leaderboard.vehicle\<close>) or with \<^verbatim>\<open>.first()\<close>: the first matching row in primary
  key order, if any.
\<close>

fun first_index :: "('a \<Rightarrow> bool) \<Rightarrow> 'a list \<Rightarrow> nat option" where
  "first_index P [] = None"
| "first_index P (x # xs) = (if P x then Some 0 else map_option Suc (first_index P xs))"

text \<open>HTTP outcomes: 200, 201, 400 and 500.\<close>

datatype 'a response = Ok 'a | Created 'a | BadRequest | ServerError

section \<open>The vehicle-keyed application (drivewise)\<close>

record Leaderboard =
  lb_vehicle :: nat
  rank :: int
  lb_total_violations :: int
  lb_total_trips :: int
  lb_compliance_rate :: rat
  lb_average_compliance_score :: rat
  total_tokens_earned :: int

record drivewise_db =
  traffic_signs :: "TrafficSign list"
  vehicles :: "Vehicle list"
  compliance_records :: "ComplianceRecord list"
  reward_tokens :: "RewardToken list"
  leaderboard :: "Leaderboard list"

definition empty_db :: drivewise_db where
  "empty_db = \<lparr>traffic_signs = [], vehicles = [], compliance_records = [],
     reward_tokens = [], leaderboard = []\<rparr>"

subsection \<open>Vehicle aggregates\<close>

text \<open>The properties of \<^verbatim>\<open>Vehicle\<close>; \<open>v\<close> is the primary key of the vehicle.\<close>

definition total_violations :: "drivewise_db \<Rightarrow> nat \<Rightarrow> int" where
  "total_violations db v =
     int (length (filter
       (\<lambda>r. vehicle r = Some v
          \<and> violation_type r \<in> set [''speed_violation'', ''horn_violation'', ''seatbelt_violation''])
       (compliance_records db)))"

definition total_trips :: "drivewise_db \<Rightarrow> nat \<Rightarrow> int" where
  "total_trips db v = int (length (filter (\<lambda>r. vehicle r = Some v) (compliance_records db)))"

definition compliance_rate :: "numerics \<Rightarrow> drivewise_db \<Rightarrow> nat \<Rightarrow> rat" where
  "compliance_rate nm db v =
     (let trips = total_trips db v
      in if trips = 0 then 100
         else let violations = total_violations db v
              in rate_round nm trips violations)"

definition average_compliance_score :: "numerics \<Rightarrow> drivewise_db \<Rightarrow> nat \<Rightarrow> rat" where
  "average_compliance_score nm db v =
     (let records = filter (\<lambda>r. vehicle r = Some v) (compliance_records db)
      in if records = [] then 100
         else let total_score = sum_list (map compliance_score records)
              in mean_round nm total_score (int (length records)))"

definition qualifies_for_leaderboard :: "drivewise_db \<Rightarrow> nat \<Rightarrow> bool" where
  "qualifies_for_leaderboard db v = (total_trips db v \<ge> 3)"

subsection \<open>Leaderboard ranker\<close>

text \<open>\<^verbatim>\<open>Leaderboard.update_stats\<close>, applied to a fetched entry; the caller writes it back.\<close>

definition update_stats :: "numerics \<Rightarrow> drivewise_db \<Rightarrow> Leaderboard \<Rightarrow> Leaderboard" where
  "update_stats nm db e =
     (let v = lb_vehicle e;
          reward_token = find (\<lambda>t. rt_vehicle t = v) (reward_tokens db)
      in e\<lparr>lb_total_violations := total_violations db v,
            lb_total_trips := total_trips db v,
            lb_compliance_rate := to_decimal nm (compliance_rate nm db v),
            lb_average_compliance_score := to_decimal nm (average_compliance_score nm db v),
            total_tokens_earned :=
              (case reward_token of Some t \<Rightarrow> tokens_earned t | None \<Rightarrow> 0)\<rparr>)"

definition new_entry :: "nat \<Rightarrow> Leaderboard" where
  "new_entry v = \<lparr>lb_vehicle = v, rank = 0, lb_total_violations = 0, lb_total_trips = 0,
     lb_compliance_rate = 100, lb_average_compliance_score = 100, total_tokens_earned = 0\<rparr>"

text \<open>
  One round of the first loop of \<^verbatim>\<open>update_all_rankings\<close>: \<^verbatim>\<open>get_or_create\<close> the entry
  of vehicle \<open>v\<close>, then \<^verbatim>\<open>update_stats\<close> and write it back.
\<close>

definition refresh_entry ::
  "numerics \<Rightarrow> drivewise_db \<Rightarrow> nat \<Rightarrow> Leaderboard list \<Rightarrow> Leaderboard list" where
  "refresh_entry nm db v lb =
     (case first_index (\<lambda>e. lb_vehicle e = v) lb of
        Some i \<Rightarrow> lb[i := update_stats nm db (lb ! i)]
      | None \<Rightarrow> lb @ [update_stats nm db (new_entry v)])"

definition vehicles_with_records :: "drivewise_db \<Rightarrow> nat list" where
  "vehicles_with_records db = filter (\<lambda>v. total_trips db v \<ge> 3) [0..<length (vehicles db)]"

text \<open>
  \<^verbatim>\<open>order_by('-total_trips', 'total_violations', '-compliance_rate')\<close>: the primary keys
  of the entries in that order. SQL leaves the order of rows with equal keys open; the
  model keeps them in primary key order.
\<close>

definition ranking_key :: "Leaderboard \<Rightarrow> int \<times> int \<times> rat" where
  "ranking_key e = (- lb_total_trips e, lb_total_violations e, - lb_compliance_rate e)"

definition order_by_ranking :: "Leaderboard list \<Rightarrow> nat list" where
  "order_by_ranking lb = sort_key (\<lambda>i. ranking_key (lb ! i)) [0..<length lb]"

text \<open>
  The second loop: \<^verbatim>\<open>for rank, entry in enumerate(leaderboard_entries, 1)\<close>. The query
  is evaluated once, so each \<open>entry\<close> is the row as fetched, saved back with its rank.
\<close>

definition assign_ranks :: "Leaderboard list \<Rightarrow> Leaderboard list" where
  "assign_ranks lb =
     fold (\<lambda>(rnk, i) tbl. tbl[i := (lb ! i)\<lparr>rank := rnk\<rparr>])
       (zip [1..int (length lb)] (order_by_ranking lb)) lb"

definition update_all_rankings :: "numerics \<Rightarrow> drivewise_db \<Rightarrow> drivewise_db" where
  "update_all_rankings nm db =
     db\<lparr>leaderboard :=
          assign_ranks (fold (refresh_entry nm db) (vehicles_with_records db) (leaderboard db))\<rparr>"

text \<open>The ranking criteria as the specification words them: A is ranked before B.\<close>

definition ranks_before :: "Leaderboard \<Rightarrow> Leaderboard \<Rightarrow> bool" where
  "ranks_before A B =
     (lb_total_trips A > lb_total_trips B
      \<or> (lb_total_trips A = lb_total_trips B
          \<and> (lb_total_violations A < lb_total_violations B
              \<or> (lb_total_violations A = lb_total_violations B
                  \<and> lb_compliance_rate A > lb_compliance_rate B))))"

subsection \<open>Token awarder and the sensor endpoint\<close>

text \<open>
  The validated payload of the drivewise endpoint. Its serializer class is not among
  the sources; the view reads \<^verbatim>\<open>vehicle_id\<close>, \<^verbatim>\<open>sign_type\<close> and, with defaults,
  \<^verbatim>\<open>sign_value\<close>, \<^verbatim>\<open>location\<close> and \<^verbatim>\<open>drive_value\<close>, the last one a number that it
  passes to \<^verbatim>\<open>int\<close> and compares with 1. \<open>None\<close> is an absent key.
\<close>

record SensorData =
  sd_vehicle_id :: string
  sd_sign_type :: string
  sd_sign_value :: "string option"
  sd_drive_value :: "int option"
  sd_location :: "string option"

record ComplianceResult =
  violation_detected :: bool
  res_violation_type :: "string option"
  res_compliance_score :: int
  res_violation_description :: "string option"
  res_tokens_earned :: int
  res_total_trips :: int
  current_rank :: "int option"

text \<open>\<^verbatim>\<open>Vehicle.objects.get_or_create(vehicle_id=..., defaults=...)\<close>: key, row, table.\<close>

definition get_or_create_vehicle ::
  "string \<Rightarrow> Vehicle list \<Rightarrow> nat \<times> Vehicle \<times> Vehicle list" where
  "get_or_create_vehicle vid tbl =
     (case first_index (\<lambda>x. vehicle_id x = vid) tbl of
        Some i \<Rightarrow> (i, tbl ! i, tbl)
      | None \<Rightarrow>
          (let x = \<lparr>vehicle_id = vid, vehicle_type = ''four_wheeler'',
                     registration_number = None, owner_name = Some ''Unknown''\<rparr>
           in (length tbl, x, tbl @ [x])))"

definition new_traffic_sign :: "string \<Rightarrow> string option \<Rightarrow> string option \<Rightarrow> TrafficSign" where
  "new_traffic_sign st sv loc =
     \<lparr>sign_type = st,
      sign_value = Some (case sv of None \<Rightarrow> [] | Some x \<Rightarrow> x),
      location = Some (case loc of None \<Rightarrow> [] | Some x \<Rightarrow> x),
      is_active = True\<rparr>"

text \<open>
  The keyword arguments of \<^verbatim>\<open>ComplianceRecord.objects.create\<close> in the drivewise view;
  the columns it does not pass take their field defaults.
\<close>

definition new_compliance_record :: "SensorData \<Rightarrow> nat \<Rightarrow> Vehicle \<Rightarrow> nat \<Rightarrow> ComplianceRecord" where
  "new_compliance_record d v veh ts =
     (let drive_value = (case sd_drive_value d of None \<Rightarrow> 0 | Some n \<Rightarrow> n)
      in \<lparr>traffic_sign = ts,
          speed_limit = (if sd_sign_type d = ''speed_limit'' then Some drive_value else None),
          actual_speed = (if sd_sign_type d = ''speed_limit'' then Some drive_value else None),
          no_horn_zone = (sd_sign_type d = ''no_horn''),
          horn_applied = (if sd_sign_type d = ''no_horn'' then drive_value = 1 else False),
          seatbelt_required = (vehicle_type veh = ''four_wheeler''),
          seatbelt_worn = (if sd_sign_type d = ''seatbelt'' then drive_value = 1 else False),
          violation_type = ''no_violation'',
          severity = ''low'',
          violation_description = None,
          compliance_score = 100,
          vehicle = Some v\<rparr>)"

text \<open>Tier table of the drivewise view.\<close>

definition award_tokens :: "int \<Rightarrow> int" where
  "award_tokens score =
     (if score \<ge> 90 then 10
      else if score \<ge> 70 then 5
      else if score \<ge> 50 then 2
      else 0)"

text \<open>
  \<^verbatim>\<open>RewardToken.objects.get_or_create(vehicle=vehicle, defaults={'tokens_earned': n})\<close>
  followed by the increment when the row was there already. The foreign key of
  \<^verbatim>\<open>RewardToken\<close> is not unique, so the lookup can fail with several rows.
\<close>

definition credit_tokens :: "nat \<Rightarrow> int \<Rightarrow> RewardToken list \<Rightarrow> RewardToken list option" where
  "credit_tokens v n tbl =
     (case get_row (\<lambda>t. rt_vehicle t = v) tbl of
        DoesNotExist \<Rightarrow> Some (tbl @ [\<lparr>rt_vehicle = v, tokens_earned = n, tokens_spent = 0\<rparr>])
      | Found i \<Rightarrow> Some (tbl[i := (tbl ! i)\<lparr>tokens_earned := tokens_earned (tbl ! i) + n\<rparr>])
      | MultipleObjectsReturned \<Rightarrow> None)"

text \<open>
  \<^verbatim>\<open>process_sensor_data\<close> of \<^verbatim>\<open>drivewise/views.py\<close>, from the validated payload on.
  The view runs without a transaction: when the token lookup raises, the handler
  answers 500 and the rows written so far stay. The calls to the blockchain service are
  best-effort and touch no table; they are left out.
\<close>

definition process_sensor_data ::
  "numerics \<Rightarrow> SensorData \<Rightarrow> drivewise_db \<Rightarrow> ComplianceResult response \<times> drivewise_db" where
  "process_sensor_data nm d db =
     (let (v, veh, vtbl) = get_or_create_vehicle (sd_vehicle_id d) (vehicles db);
          db1 = db\<lparr>vehicles := vtbl\<rparr>;
          ts = length (traffic_signs db1);
          db2 = db1\<lparr>traffic_signs := traffic_signs db1
                  @ [new_traffic_sign (sd_sign_type d) (sd_sign_value d) (sd_location d)]\<rparr>;
          compliance_record = prepare_save (new_compliance_record d v veh ts);
          db3 = db2\<lparr>compliance_records :=
                  save_record None (new_compliance_record d v veh ts) (compliance_records db2)\<rparr>;
          score = calculate_compliance_score compliance_record;
          vtype = violation_type compliance_record;
          tokens = award_tokens score
      in case credit_tokens v tokens (reward_tokens db3) of
           None \<Rightarrow> (ServerError, db3)
         | Some rtbl \<Rightarrow>
             (let db4 = update_all_rankings nm (db3\<lparr>reward_tokens := rtbl\<rparr>);
                  rnk = (case first_index (\<lambda>e. lb_vehicle e = v) (leaderboard db4) of
                           None \<Rightarrow> None
                         | Some i \<Rightarrow> Some (rank (leaderboard db4 ! i)))
              in (Created
                    \<lparr>violation_detected = (vtype \<noteq> ''no_violation''),
                     res_violation_type = (if vtype \<noteq> ''no_violation'' then Some vtype else None),
                     res_compliance_score = score,
                     res_violation_description = violation_description compliance_record,
                     res_tokens_earned = tokens,
                     res_total_trips = total_trips db4 v,
                     current_rank = rnk\<rparr>,
                  db4)))"

definition run_sensor_events :: "numerics \<Rightarrow> SensorData list \<Rightarrow> drivewise_db \<Rightarrow> drivewise_db" where
  "run_sensor_events nm ds db = fold (\<lambda>d s. snd (process_sensor_data nm d s)) ds db"

subsection \<open>Spending tokens\<close>

definition tokens_available :: "RewardToken \<Rightarrow> int" where
  "tokens_available t = tokens_earned t - tokens_spent t"

text \<open>
  \<^verbatim>\<open>spend_tokens\<close> of \<^verbatim>\<open>drivewise/views.py\<close>; \<open>amount\<close> is the JSON integer of the
  request body (0 when absent). \<^verbatim>\<open>get_object_or_404\<close> raises inside the
  \<^verbatim>\<open>try\<close>, so an unknown vehicle or ledger ends in the 500 handler. The answer of a
  successful spend carries the new available balance.
\<close>

definition spend_tokens ::
  "string \<Rightarrow> int option \<Rightarrow> drivewise_db \<Rightarrow> int response \<times> drivewise_db" where
  "spend_tokens vid amt db =
     (case first_index (\<lambda>x. vehicle_id x = vid) (vehicles db) of
        None \<Rightarrow> (ServerError, db)
      | Some v \<Rightarrow>
          (case get_row (\<lambda>t. rt_vehicle t = v) (reward_tokens db) of
             Found i \<Rightarrow>
               (let reward_token = reward_tokens db ! i;
                    amount = (case amt of None \<Rightarrow> 0 | Some n \<Rightarrow> n)
                in if tokens_available reward_token < amount then (BadRequest, db)
                   else
                     (let t = reward_token\<lparr>tokens_spent := tokens_spent reward_token + amount\<rparr>
                      in (Ok (tokens_available t),
                          db\<lparr>reward_tokens := (reward_tokens db)[i := t]\<rparr>)))
           | _ \<Rightarrow> (ServerError, db)))"

section \<open>The session-keyed application (expensetrackerapp)\<close>

record session_db =
  s_traffic_signs :: "TrafficSign list"
  s_vehicles :: "Vehicle list"
  driving_sessions :: "DrivingSession list"
  s_compliance_records :: "SessionComplianceRecord list"
  s_reward_tokens :: "RewardToken list"

definition empty_session_db :: session_db where
  "empty_session_db = \<lparr>s_traffic_signs = [], s_vehicles = [], driving_sessions = [],
     s_compliance_records = [], s_reward_tokens = []\<rparr>"

text \<open>The validated payload of \<^verbatim>\<open>SensorDataSerializer\<close> in expensetrackerapp.\<close>

record SessionSensorData =
  ssd_vehicle_id :: string
  ssd_sign_type :: string
  ssd_sign_value :: "string option"
  ssd_actual_speed :: "int option"
  ssd_horn_applied :: bool
  ssd_seatbelt_worn :: bool
  ssd_location :: "string option"

record SessionComplianceResult =
  compliance_record_id :: nat
  sres_violation_type :: string
  sres_severity :: string
  sres_compliance_score :: int
  sres_violation_description :: string
  sres_tokens_earned :: int

text \<open>
  Python's \<^verbatim>\<open>int\<close> of a string, for ASCII text: surrounding white space, an optional
  sign, then decimal digits, a single underscore allowed between two digits. \<open>None\<close>
  is \<^verbatim>\<open>ValueError\<close>.
\<close>

definition is_space :: "char \<Rightarrow> bool" where
  "is_space c = (c \<in> set [CHR '' '', CHR 0x09, CHR 0x0A, CHR 0x0B, CHR 0x0C, CHR 0x0D])"

definition digit_of :: "char \<Rightarrow> nat option" where
  "digit_of c =
     (let n = of_char c :: nat in if 48 \<le> n \<and> n \<le> 57 then Some (n - 48) else None)"

fun digits_value :: "nat \<Rightarrow> string \<Rightarrow> nat option" where
  "digits_value acc [] = Some acc"
| "digits_value acc (c # cs) =
     (if c = CHR ''_'' then
        (case cs of
           [] \<Rightarrow> None
         | c' # cs' \<Rightarrow>
             (case digit_of c' of
                None \<Rightarrow> None
              | Some k \<Rightarrow> digits_value (acc * 10 + k) cs'))
      else
        (case digit_of c of
           None \<Rightarrow> None
         | Some k \<Rightarrow> digits_value (acc * 10 + k) cs))"

definition unsigned_value :: "string \<Rightarrow> nat option" where
  "unsigned_value s =
     (case s of
        [] \<Rightarrow> None
      | c # cs \<Rightarrow>
          (case digit_of c of None \<Rightarrow> None | Some k \<Rightarrow> digits_value k cs))"

definition py_int :: "string \<Rightarrow> int option" where
  "py_int s =
     (case dropWhile is_space (rev (dropWhile is_space (rev s))) of
        [] \<Rightarrow> None
      | c # cs \<Rightarrow>
          (if c = CHR ''-'' then map_option (\<lambda>n. - int n) (unsigned_value cs)
           else if c = CHR ''+'' then map_option int (unsigned_value cs)
           else map_option int (unsigned_value (c # cs))))"

text \<open>
  The \<^verbatim>\<open>speed_limit\<close> argument of the session view:
  \<^verbatim>\<open>int(sign_value) if sign_value and sign_type == 'speed_limit' else None\<close>.
  The outer \<open>None\<close> is the \<^verbatim>\<open>ValueError\<close> of \<^verbatim>\<open>int\<close>.
\<close>

definition session_speed_limit :: "SessionSensorData \<Rightarrow> int option option" where
  "session_speed_limit d =
     (case ssd_sign_value d of
        None \<Rightarrow> Some None
      | Some sv \<Rightarrow>
          (if sv \<noteq> [] \<and> ssd_sign_type d = ''speed_limit'' then
             (case py_int sv of None \<Rightarrow> None | Some n \<Rightarrow> Some (Some n))
           else Some None))"

definition new_session_record ::
  "SessionSensorData \<Rightarrow> nat \<Rightarrow> Vehicle \<Rightarrow> nat \<Rightarrow> int option \<Rightarrow> SessionComplianceRecord" where
  "new_session_record d sess veh ts limit =
     \<lparr>traffic_sign = ts,
      speed_limit = limit,
      actual_speed = ssd_actual_speed d,
      no_horn_zone = (ssd_sign_type d = ''no_horn''),
      horn_applied = ssd_horn_applied d,
      seatbelt_required = (vehicle_type veh = ''four_wheeler''),
      seatbelt_worn = ssd_seatbelt_worn d,
      violation_type = ''no_violation'',
      severity = ''low'',
      violation_description = None,
      compliance_score = 100,
      driving_session = sess\<rparr>"

text \<open>Tier table of the session view.\<close>

definition session_award_tokens :: "int \<Rightarrow> int" where
  "session_award_tokens score =
     (if score \<ge> 90 then 5
      else if score \<ge> 80 then 3
      else if score \<ge> 70 then 1
      else 0)"

text \<open>
  \<^verbatim>\<open>DrivingSession.objects.get_or_create(vehicle=vehicle, is_active=True, ...)\<close>:
  the key of the session and the table, or \<open>None\<close> when several rows match.
\<close>

definition get_or_create_session ::
  "nat \<Rightarrow> DrivingSession list \<Rightarrow> (nat \<times> DrivingSession list) option" where
  "get_or_create_session v tbl =
     (case get_row (\<lambda>s. ds_vehicle s = v \<and> ds_is_active s) tbl of
        DoesNotExist \<Rightarrow> Some (length tbl, tbl @ [\<lparr>ds_vehicle = v, ds_is_active = True\<rparr>])
      | Found i \<Rightarrow> Some (i, tbl)
      | MultipleObjectsReturned \<Rightarrow> None)"

text \<open>
  \<^verbatim>\<open>process_sensor_data\<close> of \<^verbatim>\<open>expensetrackerapp/views.py\<close>, from the validated
  payload on. Each exception inside the \<^verbatim>\<open>try\<close> ends in the 500 handler with the rows
  written so far kept.
\<close>

definition session_process_sensor_data ::
  "SessionSensorData \<Rightarrow> session_db \<Rightarrow> SessionComplianceResult response \<times> session_db" where
  "session_process_sensor_data d db =
     (let (v, veh, vtbl) = get_or_create_vehicle (ssd_vehicle_id d) (s_vehicles db);
          db1 = db\<lparr>s_vehicles := vtbl\<rparr>
      in case get_or_create_session v (driving_sessions db1) of
           None \<Rightarrow> (ServerError, db1)
         | Some (sess, stbl) \<Rightarrow>
             (let db2 = db1\<lparr>driving_sessions := stbl\<rparr>;
                  ts = length (s_traffic_signs db2);
                  db3 = db2\<lparr>s_traffic_signs := s_traffic_signs db2
                          @ [new_traffic_sign (ssd_sign_type d) (ssd_sign_value d) (ssd_location d)]\<rparr>
              in case session_speed_limit d of
                   None \<Rightarrow> (ServerError, db3)
                 | Some limit \<Rightarrow>
                     (let pk = length (s_compliance_records db3);
                          compliance_record = prepare_save (new_session_record d sess veh ts limit);
                          db4 = db3\<lparr>s_compliance_records :=
                                  save_record None (new_session_record d sess veh ts limit)
                                    (s_compliance_records db3)\<rparr>;
                          tokens = session_award_tokens (compliance_score compliance_record)
                      in case credit_tokens v tokens (s_reward_tokens db4) of
                           None \<Rightarrow> (ServerError, db4)
                         | Some rtbl \<Rightarrow>
                             (Created
                                \<lparr>compliance_record_id = pk,
                                 sres_violation_type = violation_type compliance_record,
                                 sres_severity = severity compliance_record,
                                 sres_compliance_score = compliance_score compliance_record,
                                 sres_violation_description =
                                   (case violation_description compliance_record of
                                      None \<Rightarrow> ''No violations detected''
                                    | Some x \<Rightarrow> if x = [] then ''No violations detected'' else x),
                                 sres_tokens_earned = tokens\<rparr>,
                              db4\<lparr>s_reward_tokens := rtbl\<rparr>))))"

text \<open>
  \<^verbatim>\<open>spend_tokens\<close> of \<^verbatim>\<open>expensetrackerapp/views.py\<close>; the amount is the key
  \<^verbatim>\<open>tokens\<close> of the request body and the test is \<^verbatim>\<open>tokens_to_spend > tokens_available\<close>.
  The answer is the serialized ledger row.
\<close>

definition session_spend_tokens ::
  "string \<Rightarrow> int option \<Rightarrow> session_db \<Rightarrow> RewardToken response \<times> session_db" where
  "session_spend_tokens vid amt db =
     (case first_index (\<lambda>x. vehicle_id x = vid) (s_vehicles db) of
        None \<Rightarrow> (ServerError, db)
      | Some v \<Rightarrow>
          (case get_row (\<lambda>t. rt_vehicle t = v) (s_reward_tokens db) of
             Found i \<Rightarrow>
               (let reward_token = s_reward_tokens db ! i;
                    tokens_to_spend = (case amt of None \<Rightarrow> 0 | Some n \<Rightarrow> n)
                in if tokens_to_spend > tokens_available reward_token then (BadRequest, db)
                   else
                     (let t = reward_token
                            \<lparr>tokens_spent := tokens_spent reward_token + tokens_to_spend\<rparr>
                      in (Ok t, db\<lparr>s_reward_tokens := (s_reward_tokens db)[i := t]\<rparr>)))
           | _ \<Rightarrow> (ServerError, db)))"

section \<open>Specification-side notions\<close>




text \<open>
  A ledger table after an operation against the table before it: every row that was
  there is still there under its key, for the same vehicle, with neither counter lower.
\<close>

definition ledger_le :: "RewardToken \<Rightarrow> RewardToken \<Rightarrow> bool" where
  "ledger_le a b =
     (rt_vehicle a = rt_vehicle b \<and> tokens_earned a \<le> tokens_earned b
      \<and> tokens_spent a \<le> tokens_spent b)"

definition ledgers_non_decreasing :: "RewardToken list \<Rightarrow> RewardToken list \<Rightarrow> bool" where
  "ledgers_non_decreasing old new =
     (length old \<le> length new \<and> list_all2 ledger_le old (take (length old) new))"



section \<open>Sample inputs\<close>

text \<open>Concrete records, payloads and tables on which the properties below are run.\<close>

definition zero_limit_record :: ComplianceRecord where
  "zero_limit_record =
     \<lparr>traffic_sign = 0, speed_limit = Some 0, actual_speed = Some 65,
      no_horn_zone = True, horn_applied = True,
      seatbelt_required = True, seatbelt_worn = True,
      violation_type = ''no_violation'', severity = ''low'',
      violation_description = None, compliance_score = 100, vehicle = Some 0\<rparr>"

definition horn_event :: SensorData where
  "horn_event = \<lparr>sd_vehicle_id = ''V1'', sd_sign_type = ''no_horn'',
     sd_sign_value = Some ''Yes'', sd_drive_value = Some 1, sd_location = None\<rparr>"

definition speeding_event :: SessionSensorData where
  "speeding_event = \<lparr>ssd_vehicle_id = ''V1'', ssd_sign_type = ''speed_limit'',
     ssd_sign_value = Some ''40'', ssd_actual_speed = Some 65, ssd_horn_applied = False,
     ssd_seatbelt_worn = True, ssd_location = None\<rparr>"

definition sample_vehicle :: Vehicle where
  "sample_vehicle = \<lparr>vehicle_id = ''V1'', vehicle_type = ''four_wheeler'',
     registration_number = None, owner_name = Some ''Unknown''\<rparr>"

definition ledger_db :: drivewise_db where
  "ledger_db = \<lparr>traffic_signs = [], vehicles = [sample_vehicle], compliance_records = [],
     reward_tokens = [\<lparr>rt_vehicle = 0, tokens_earned = 10, tokens_spent = 7\<rparr>],
     leaderboard = []\<rparr>"

definition ledger_session_db :: session_db where
  "ledger_session_db = \<lparr>s_traffic_signs = [], s_vehicles = [sample_vehicle],
     driving_sessions = [], s_compliance_records = [],
     s_reward_tokens = [\<lparr>rt_vehicle = 0, tokens_earned = 10, tokens_spent = 7\<rparr>]\<rparr>"

definition classified_record :: "string \<Rightarrow> nat \<Rightarrow> ComplianceRecord" where
  "classified_record ty v =
     \<lparr>traffic_sign = 0, speed_limit = None, actual_speed = None,
      no_horn_zone = False, horn_applied = False,
      seatbelt_required = False, seatbelt_worn = False,
      violation_type = ty, severity = ''low'',
      violation_description = None, compliance_score = 100, vehicle = Some v\<rparr>"


definition ranking_db :: drivewise_db where
  "ranking_db = \<lparr>traffic_signs = [],
     vehicles = [sample_vehicle, sample_vehicle\<lparr>vehicle_id := ''V2''\<rparr>],
     compliance_records =
       [classified_record ''no_violation'' 0, classified_record ''no_violation'' 1,
        classified_record ''no_violation'' 0, classified_record ''speed_violation'' 1,
        classified_record ''no_violation'' 0, classified_record ''no_violation'' 1,
        classified_record ''no_violation'' 1],
     reward_tokens = [], leaderboard = []\<rparr>"

section \<open>Properties of the scorer\<close>

lemma score_eq_penalties:
  "calculate_compliance_score r = max 0 (100 - penalties r)"
  by (simp add: calculate_compliance_score_def penalties_def speed_penalty_def
      horn_penalty_def seatbelt_penalty_def truthy_def Let_def split: option.splits)

lemma penalties_bounds: "0 \<le> penalties r \<and> penalties r \<le> 70"
  by (simp add: penalties_def speed_penalty_def horn_penalty_def seatbelt_penalty_def
      split: option.splits)

text \<open>
  C1. For every compliance record the score is \<open>max 0 (100 - p)\<close>, where \<open>p\<close> adds
  20 for a present, non-zero speed pair with actual speed above the limit, 10 more
  when the actual speed exceeds the limit by more than 20, 15 for a horn applied in a
  no-horn zone and 25 for a required seatbelt not worn. A missing or zero speed limit
  or actual speed gives no speed penalty, and the score lies between 0 and 100.
\<close>

theorem calculate_compliance_score_spec:
  "calculate_compliance_score r = max 0 (100 - penalties r)
   \<and> 0 \<le> calculate_compliance_score r \<and> calculate_compliance_score r \<le> 100
   \<and> (speed_limit r = None \<or> speed_limit r = Some 0
        \<or> actual_speed r = None \<or> actual_speed r = Some 0
      \<longrightarrow> speed_penalty (speed_limit r) (actual_speed r) = 0
          \<and> calculate_compliance_score r = 100 - horn_penalty r - seatbelt_penalty r)"
proof -
  have eq: "calculate_compliance_score r = max 0 (100 - penalties r)"
    by (rule score_eq_penalties)
  have bounds: "0 \<le> penalties r \<and> penalties r \<le> 70"
    by (rule penalties_bounds)
  have range: "0 \<le> calculate_compliance_score r \<and> calculate_compliance_score r \<le> 100"
    using eq bounds by simp
  have edge: "speed_penalty (speed_limit r) (actual_speed r) = 0
      \<and> calculate_compliance_score r = 100 - horn_penalty r - seatbelt_penalty r"
    if "speed_limit r = None \<or> speed_limit r = Some 0
        \<or> actual_speed r = None \<or> actual_speed r = Some 0"
  proof -
    have sp: "speed_penalty (speed_limit r) (actual_speed r) = 0"
      using that by (auto simp: speed_penalty_def split: option.splits)
    have "horn_penalty r + seatbelt_penalty r \<le> 40"
      by (simp add: horn_penalty_def seatbelt_penalty_def)
    then show ?thesis
      using sp eq by (simp add: penalties_def)
  qed
  show ?thesis
    using eq range edge by blast
qed

theorem calculate_compliance_score_spec_witness:
  "speed_limit zero_limit_record = Some 0
   \<and> speed_penalty (speed_limit zero_limit_record) (actual_speed zero_limit_record) = 0
   \<and> calculate_compliance_score zero_limit_record = 85"
  using calculate_compliance_score_spec [of zero_limit_record]
  by (simp add: zero_limit_record_def horn_penalty_def seatbelt_penalty_def)

section \<open>Lookups\<close>

lemma get_row_filter_cases:
  "get_row P tbl = Found i \<longleftrightarrow> filter (\<lambda>j. P (tbl ! j)) [0..<length tbl] = [i]"
  "get_row P tbl = DoesNotExist \<longleftrightarrow> filter (\<lambda>j. P (tbl ! j)) [0..<length tbl] = []"
  by (auto simp: get_row_def split: list.splits)

lemma get_row_FoundD:
  assumes "get_row P tbl = Found i"
  shows "i < length tbl \<and> P (tbl ! i) \<and> (\<forall>j<length tbl. P (tbl ! j) \<longrightarrow> j = i)"
proof -
  have "filter (\<lambda>j. P (tbl ! j)) [0..<length tbl] = [i]"
    using assms by (simp add: get_row_filter_cases)
  then have "set (filter (\<lambda>j. P (tbl ! j)) [0..<length tbl]) = {i}"
    by simp
  then have "{j. j < length tbl \<and> P (tbl ! j)} = {i}"
    by auto
  then show ?thesis by blast
qed

lemma get_row_DoesNotExist_iff:
  "get_row P tbl = DoesNotExist \<longleftrightarrow> (\<forall>x\<in>set tbl. \<not> P x)"
  by (auto simp: get_row_filter_cases filter_empty_conv all_set_conv_all_nth)

lemma first_index_SomeD:
  "first_index P xs = Some i \<Longrightarrow> i < length xs \<and> P (xs ! i) \<and> (\<forall>j<i. \<not> P (xs ! j))"
proof (induction xs arbitrary: i)
  case Nil
  then show ?case by simp
next
  case (Cons x xs)
  show ?case
  proof (cases "P x")
    case True
    with Cons.prems show ?thesis by simp
  next
    case False
    with Cons.prems obtain k where k: "first_index P xs = Some k" "i = Suc k"
      by auto
    from Cons.IH[OF k(1)] False k(2) show ?thesis
      by (auto simp: less_Suc_eq_0_disj)
  qed
qed

lemma first_index_None_iff: "first_index P xs = None \<longleftrightarrow> (\<forall>x\<in>set xs. \<not> P x)"
  by (induction xs) auto

lemma spend_tokens_found:
  assumes "first_index (\<lambda>x. vehicle_id x = vid) (vehicles db) = Some v"
    and "get_row (\<lambda>t. rt_vehicle t = v) (reward_tokens db) = Found i"
  shows "spend_tokens vid (Some amount) db =
     (let t = reward_tokens db ! i
      in if amount > tokens_available t then (BadRequest, db)
         else (Ok (tokens_available t - amount),
               db\<lparr>reward_tokens := (reward_tokens db)[i := t\<lparr>tokens_spent := tokens_spent t + amount\<rparr>]\<rparr>))"
  using assms by (simp add: spend_tokens_def Let_def tokens_available_def)

lemma spend_tokens_error_unchanged:
  "fst (spend_tokens vid amt db) = BadRequest \<or> fst (spend_tokens vid amt db) = ServerError
   \<Longrightarrow> snd (spend_tokens vid amt db) = db"
  by (auto simp: spend_tokens_def Let_def split: option.splits lookup.splits if_splits)


lemma session_spend_tokens_error_unchanged:
  "fst (session_spend_tokens vid amt db) = BadRequest \<or> fst (session_spend_tokens vid amt db) = ServerError
   \<Longrightarrow> snd (session_spend_tokens vid amt db) = db"
  by (auto simp: session_spend_tokens_def Let_def split: option.splits lookup.splits if_splits)


lemma calculate_prepare_save [simp]:
  "calculate_compliance_score (prepare_save r) = calculate_compliance_score r"
  by (simp add: prepare_save_def calculate_compliance_score_def)

lemma prepare_save_fields [simp]:
  "compliance_score (prepare_save r) = calculate_compliance_score r"
  "violation_type (prepare_save r) = violation_type r"
  "severity (prepare_save r) = severity r"
  "speed_limit (prepare_save r) = speed_limit r"
  "actual_speed (prepare_save r) = actual_speed r"
  "violation_description (prepare_save r) = violation_description r"
  by (simp_all add: prepare_save_def)

lemma prepare_save_vehicle [simp]: "vehicle (prepare_save r) = vehicle r"
  by (simp add: prepare_save_def)

lemma update_all_rankings_tables [simp]:
  "compliance_records (update_all_rankings nm db) = compliance_records db"
  "reward_tokens (update_all_rankings nm db) = reward_tokens db"
  "vehicles (update_all_rankings nm db) = vehicles db"
  "traffic_signs (update_all_rankings nm db) = traffic_signs db"
  by (simp_all add: update_all_rankings_def)

lemma credit_tokens_None_iff:
  "credit_tokens v n tbl = None \<longleftrightarrow> get_row (\<lambda>t. rt_vehicle t = v) tbl = MultipleObjectsReturned"
  by (simp add: credit_tokens_def split: lookup.splits)

lemma process_sensor_data_records:
  assumes "get_or_create_vehicle (sd_vehicle_id d) (vehicles db) = (v, veh, vtbl)"
  shows "compliance_records (snd (process_sensor_data nm d db)) =
         compliance_records db
           @ [prepare_save (new_compliance_record d v veh (length (traffic_signs db)))]"
  using assms
  by (simp add: process_sensor_data_def Let_def save_record_def split: option.splits)

lemma process_sensor_data_tokens:
  assumes "get_or_create_vehicle (sd_vehicle_id d) (vehicles db) = (v, veh, vtbl)"
  shows "reward_tokens (snd (process_sensor_data nm d db)) =
         (case credit_tokens v
                 (award_tokens (calculate_compliance_score
                    (new_compliance_record d v veh (length (traffic_signs db)))))
                 (reward_tokens db) of
            None \<Rightarrow> reward_tokens db
          | Some rtbl \<Rightarrow> rtbl)"
  using assms
  by (simp add: process_sensor_data_def Let_def save_record_def split: option.splits)

lemma process_sensor_data_response:
  assumes "get_or_create_vehicle (sd_vehicle_id d) (vehicles db) = (v, veh, vtbl)"
    and "get_row (\<lambda>t. rt_vehicle t = v) (reward_tokens db) \<noteq> MultipleObjectsReturned"
  shows "\<exists>res. fst (process_sensor_data nm d db) = Created res
           \<and> res_compliance_score res =
               calculate_compliance_score (new_compliance_record d v veh (length (traffic_signs db)))
           \<and> res_tokens_earned res = award_tokens (res_compliance_score res)
           \<and> \<not> violation_detected res"
  using assms
  by (auto simp: process_sensor_data_def Let_def save_record_def credit_tokens_None_iff
        new_compliance_record_def
      split: option.splits)

section \<open>Ledger operations\<close>

lemma sample_lookups:
  "first_index (\<lambda>x. vehicle_id x = ''V1'') (vehicles ledger_db) = Some 0"
  "get_row (\<lambda>t. rt_vehicle t = 0) (reward_tokens ledger_db) = Found 0"
  "first_index (\<lambda>x. vehicle_id x = ''V1'') (s_vehicles ledger_session_db) = Some 0"
  "get_row (\<lambda>t. rt_vehicle t = 0) (s_reward_tokens ledger_session_db) = Found 0"
  by (simp_all add: ledger_db_def ledger_session_db_def sample_vehicle_def get_row_def)






lemma session_records_cases:
  "s_compliance_records (snd (session_process_sensor_data d db)) = s_compliance_records db
   \<or> (\<exists>r. s_compliance_records (snd (session_process_sensor_data d db))
            = s_compliance_records db @ [prepare_save r])"
  by (auto simp: session_process_sensor_data_def Let_def save_record_def
      split: option.splits prod.splits)



lemma award_tokens_nonneg: "0 \<le> award_tokens s" "0 \<le> session_award_tokens s"
  by (simp_all add: award_tokens_def session_award_tokens_def)

lemma ledgers_non_decreasing_refl: "ledgers_non_decreasing tbl tbl"
  by (simp add: ledgers_non_decreasing_def ledger_le_def list_all2_same)

lemma ledgers_non_decreasing_append: "ledgers_non_decreasing tbl (tbl @ xs)"
  by (simp add: ledgers_non_decreasing_def ledger_le_def list_all2_same)

lemma ledgers_non_decreasing_update:
  assumes "i < length tbl \<Longrightarrow> ledger_le (tbl ! i) x"
  shows "ledgers_non_decreasing tbl (tbl[i := x])"
proof -
  have "ledger_le (tbl ! j) (tbl[i := x] ! j)" if "j < length tbl" for j
    using that assms by (cases "j = i") (simp_all add: ledger_le_def)
  then show ?thesis
    by (simp add: ledgers_non_decreasing_def list_all2_conv_all_nth)
qed

lemma credit_tokens_non_decreasing:
  assumes "0 \<le> n" and "credit_tokens v n tbl = Some tbl'"
  shows "ledgers_non_decreasing tbl tbl'"
proof (cases "get_row (\<lambda>t. rt_vehicle t = v) tbl")
  case DoesNotExist
  with assms(2) show ?thesis
    by (auto simp: credit_tokens_def ledgers_non_decreasing_append)
next
  case (Found i)
  with assms(2) have "tbl' = tbl[i := (tbl ! i)\<lparr>tokens_earned := tokens_earned (tbl ! i) + n\<rparr>]"
    by (simp add: credit_tokens_def)
  moreover have "ledger_le (tbl ! i) ((tbl ! i)\<lparr>tokens_earned := tokens_earned (tbl ! i) + n\<rparr>)"
    using assms(1) by (simp add: ledger_le_def)
  ultimately show ?thesis
    by (simp add: ledgers_non_decreasing_update)
next
  case MultipleObjectsReturned
  with assms(2) show ?thesis
    by (simp add: credit_tokens_def)
qed

lemma process_sensor_data_ledgers:
  "ledgers_non_decreasing (reward_tokens db) (reward_tokens (snd (process_sensor_data nm d db)))"
proof -
  obtain v veh vtbl where g: "get_or_create_vehicle (sd_vehicle_id d) (vehicles db) = (v, veh, vtbl)"
    by (metis prod_cases3)
  show ?thesis
    unfolding process_sensor_data_tokens [OF g]
    by (auto split: option.splits
        intro: credit_tokens_non_decreasing [OF award_tokens_nonneg(1)] ledgers_non_decreasing_refl)
qed

lemma session_process_sensor_data_tokens:
  "s_reward_tokens (snd (session_process_sensor_data d db)) = s_reward_tokens db
   \<or> (\<exists>v s. credit_tokens v (session_award_tokens s) (s_reward_tokens db)
              = Some (s_reward_tokens (snd (session_process_sensor_data d db))))"
  by (auto simp: session_process_sensor_data_def Let_def save_record_def
      split: option.splits prod.splits)

lemma session_process_sensor_data_ledgers:
  "ledgers_non_decreasing (s_reward_tokens db)
     (s_reward_tokens (snd (session_process_sensor_data d db)))"
  using session_process_sensor_data_tokens [of d db]
  by (auto intro: credit_tokens_non_decreasing [OF award_tokens_nonneg(2)]
      simp: ledgers_non_decreasing_refl)

lemma spend_tokens_ledgers:
  assumes "0 \<le> amount"
  shows "ledgers_non_decreasing (reward_tokens db)
           (reward_tokens (snd (spend_tokens vid (Some amount) db)))"
  using assms
  by (auto simp: spend_tokens_def Let_def ledgers_non_decreasing_refl ledger_le_def
      split: option.splits lookup.splits intro!: ledgers_non_decreasing_update)

lemma session_spend_tokens_ledgers:
  assumes "0 \<le> amount"
  shows "ledgers_non_decreasing (s_reward_tokens db)
           (s_reward_tokens (snd (session_spend_tokens vid (Some amount) db)))"
  using assms
  by (auto simp: session_spend_tokens_def Let_def ledgers_non_decreasing_refl ledger_le_def
      split: option.splits lookup.splits intro!: ledgers_non_decreasing_update)

lemma spend_tokens_absent_amount:
  "ledgers_non_decreasing (reward_tokens db) (reward_tokens (snd (spend_tokens vid None db)))"
  "ledgers_non_decreasing (s_reward_tokens sdb)
     (s_reward_tokens (snd (session_spend_tokens vid None sdb)))"
  by (auto simp: spend_tokens_def session_spend_tokens_def Let_def ledgers_non_decreasing_refl
        ledger_le_def
      split: option.splits lookup.splits intro!: ledgers_non_decreasing_update)






lemma py_int_40: "py_int ''40'' = Some 40"
  by code_simp

lemma sample_event_lookups:
  "get_or_create_vehicle (sd_vehicle_id horn_event) (vehicles empty_db)
     = (0, sample_vehicle, [sample_vehicle])"
  "get_row (\<lambda>t. rt_vehicle t = 0) (reward_tokens empty_db) \<noteq> MultipleObjectsReturned"
  "get_or_create_vehicle (ssd_vehicle_id speeding_event) (s_vehicles empty_session_db)
     = (0, sample_vehicle, [sample_vehicle])"
  "get_or_create_session 0 (driving_sessions empty_session_db)
     = Some (0, [\<lparr>ds_vehicle = 0, ds_is_active = True\<rparr>])"
  "session_speed_limit speeding_event = Some (Some 40)"
  "get_row (\<lambda>t. rt_vehicle t = 0) (s_reward_tokens empty_session_db) \<noteq> MultipleObjectsReturned"
  by (simp_all add: get_or_create_vehicle_def get_or_create_session_def get_row_def
      empty_db_def empty_session_db_def horn_event_def speeding_event_def sample_vehicle_def
      session_speed_limit_def py_int_40 Let_def)


section \<open>Persistence of compliance records\<close>

lemma calculate_ignores_score [simp]:
  "calculate_compliance_score (r\<lparr>compliance_score := s\<rparr>) = calculate_compliance_score r"
  by (simp add: calculate_compliance_score_def)

lemma prepare_save_supplied:
  "prepare_save (r\<lparr>compliance_score := s\<rparr>) = r\<lparr>compliance_score := calculate_compliance_score r\<rparr>"
  by (simp add: prepare_save_def)

lemma save_record_invariant:
  assumes "\<forall>x\<in>set tbl. compliance_score x = calculate_compliance_score x"
  shows "\<forall>x\<in>set (save_record pk r tbl). compliance_score x = calculate_compliance_score x"
proof (cases pk)
  case None
  with assms show ?thesis by (simp add: save_record_def)
next
  case (Some i)
  have "set (tbl[i := prepare_save r]) \<subseteq> insert (prepare_save r) (set tbl)"
    by (rule set_update_subset_insert)
  with assms Some show ?thesis
    by (auto simp: save_record_def)
qed

lemma process_sensor_data_score_invariant:
  assumes "\<forall>x\<in>set (compliance_records db). compliance_score x = calculate_compliance_score x"
  shows "\<forall>x\<in>set (compliance_records (snd (process_sensor_data nm d db))).
           compliance_score x = calculate_compliance_score x"
proof -
  obtain v veh vtbl where g: "get_or_create_vehicle (sd_vehicle_id d) (vehicles db) = (v, veh, vtbl)"
    by (metis prod_cases3)
  show ?thesis
    unfolding process_sensor_data_records [OF g] using assms by simp
qed

lemma session_process_sensor_data_score_invariant:
  assumes "\<forall>x\<in>set (s_compliance_records db). compliance_score x = calculate_compliance_score x"
  shows "\<forall>x\<in>set (s_compliance_records (snd (session_process_sensor_data d db))).
           compliance_score x = calculate_compliance_score x"
  using session_records_cases [of d db] assms by auto

text \<open>
  C7. Every save of a compliance record overwrites its score column with the score
  computed from the record's own columns, whatever value the caller supplied; so the
  stored row satisfies \<open>compliance_score = calculate_compliance_score\<close>, a table
  whose rows satisfy it still does after any save, and both sensor endpoints keep it.
\<close>

theorem save_overwrites_score:
  "prepare_save (r\<lparr>compliance_score := supplied\<rparr>)
     = r\<lparr>compliance_score := calculate_compliance_score r\<rparr>
   \<and> compliance_score (prepare_save r) = calculate_compliance_score (prepare_save r)
   \<and> last (save_record None (r\<lparr>compliance_score := supplied\<rparr>) tbl)
       = r\<lparr>compliance_score := calculate_compliance_score r\<rparr>
   \<and> (i < length tbl \<longrightarrow>
        save_record (Some i) (r\<lparr>compliance_score := supplied\<rparr>) tbl ! i
          = r\<lparr>compliance_score := calculate_compliance_score r\<rparr>)
   \<and> ((\<forall>x\<in>set tbl. compliance_score x = calculate_compliance_score x) \<longrightarrow>
        (\<forall>x\<in>set (save_record pk r tbl). compliance_score x = calculate_compliance_score x))
   \<and> ((\<forall>x\<in>set (compliance_records db). compliance_score x = calculate_compliance_score x) \<longrightarrow>
        (\<forall>x\<in>set (compliance_records (snd (process_sensor_data nm d db))).
           compliance_score x = calculate_compliance_score x))
   \<and> ((\<forall>x\<in>set (s_compliance_records sdb). compliance_score x = calculate_compliance_score x) \<longrightarrow>
        (\<forall>x\<in>set (s_compliance_records (snd (session_process_sensor_data sd sdb))).
           compliance_score x = calculate_compliance_score x))"
  using save_record_invariant [of tbl pk r]
    process_sensor_data_score_invariant [of db nm d]
    session_process_sensor_data_score_invariant [of sdb sd]
  by (simp add: prepare_save_supplied save_record_def)

theorem save_overwrites_score_witness:
  "prepare_save (zero_limit_record\<lparr>compliance_score := 3\<rparr>)
     = zero_limit_record\<lparr>compliance_score := 85\<rparr>
   \<and> save_record (Some 0) (zero_limit_record\<lparr>compliance_score := 3\<rparr>) [zero_limit_record] ! 0
     = zero_limit_record\<lparr>compliance_score := 85\<rparr>
   \<and> (\<exists>x. compliance_records (snd (process_sensor_data exact_numerics horn_event empty_db)) = [x]
        \<and> compliance_score x = calculate_compliance_score x)"
proof -
  have s: "calculate_compliance_score zero_limit_record = 85"
    by (simp add: calculate_compliance_score_def zero_limit_record_def truthy_def)
  have e: "\<forall>x\<in>set (compliance_records empty_db). compliance_score x = calculate_compliance_score x"
    by (simp add: empty_db_def)
  have l: "(0::nat) < length [zero_limit_record]"
    by simp
  note w = save_overwrites_score [where r = zero_limit_record and supplied = 3
      and tbl = "[zero_limit_record]" and i = 0 and pk = None and db = empty_db
      and nm = exact_numerics and d = horn_event and sdb = empty_session_db
      and sd = speeding_event]
  from w have a: "prepare_save (zero_limit_record\<lparr>compliance_score := 3\<rparr>)
     = zero_limit_record\<lparr>compliance_score := 85\<rparr>"
    using s by simp
  from w l have b: "save_record (Some 0) (zero_limit_record\<lparr>compliance_score := 3\<rparr>)
      [zero_limit_record] ! 0 = zero_limit_record\<lparr>compliance_score := 85\<rparr>"
    using s by simp
  from w e have c: "\<forall>x\<in>set (compliance_records (snd (process_sensor_data exact_numerics horn_event empty_db))).
           compliance_score x = calculate_compliance_score x"
    by blast
  have "\<exists>x. compliance_records (snd (process_sensor_data exact_numerics horn_event empty_db)) = [x]"
    unfolding process_sensor_data_records [OF sample_event_lookups(1)]
    by (simp add: empty_db_def)
  with c have "\<exists>x. compliance_records (snd (process_sensor_data exact_numerics horn_event empty_db)) = [x]
        \<and> compliance_score x = calculate_compliance_score x"
    by auto
  with a b show ?thesis by blast
qed

section \<open>Monotonicity of the ledger counters\<close>

lemma spend_tokens_earned_unchanged:
  "map tokens_earned (reward_tokens (snd (spend_tokens vid amt db)))
     = map tokens_earned (reward_tokens db)"
  by (simp add: spend_tokens_def Let_def map_update split: option.splits lookup.splits)
    (metis list_update_id map_update)

lemma session_spend_tokens_earned_unchanged:
  "map tokens_earned (s_reward_tokens (snd (session_spend_tokens vid amt db)))
     = map tokens_earned (s_reward_tokens db)"
  by (simp add: session_spend_tokens_def Let_def map_update split: option.splits lookup.splits)
    (metis list_update_id map_update)

text \<open>
  C8 as stated fails: a spend request with a negative amount passes the balance test
  and lowers \<open>tokens_spent\<close>. From earned 10 and spent 7, spending -5 leaves spent 2.
\<close>

theorem negative_spend_counterexample:
  "tokens_spent (reward_tokens ledger_db ! 0) = 7
   \<and> fst (spend_tokens ''V1'' (Some (- 5)) ledger_db) = Ok 8
   \<and> tokens_spent (reward_tokens (snd (spend_tokens ''V1'' (Some (- 5)) ledger_db)) ! 0) = 2
   \<and> \<not> ledgers_non_decreasing (reward_tokens ledger_db)
         (reward_tokens (snd (spend_tokens ''V1'' (Some (- 5)) ledger_db)))"
  by (simp add: spend_tokens_found [OF sample_lookups(1,2)] Let_def tokens_available_def
      ledgers_non_decreasing_def)
    (simp add: ledger_db_def ledger_le_def)

text \<open>
  C8, amended. Across sensor-event processing, in both applications, no ledger row
  loses tokens earned or tokens spent. Across token spending, \<open>tokens_earned\<close> of
  every row stays as it is for every request, and no row loses tokens spent when the
  requested amount is absent or at least 0.
\<close>

theorem ledger_counters_non_decreasing:
  "ledgers_non_decreasing (reward_tokens db) (reward_tokens (snd (process_sensor_data nm d db)))
   \<and> ledgers_non_decreasing (s_reward_tokens sdb)
        (s_reward_tokens (snd (session_process_sensor_data sd sdb)))
   \<and> map tokens_earned (reward_tokens (snd (spend_tokens vid amt db)))
        = map tokens_earned (reward_tokens db)
   \<and> map tokens_earned (s_reward_tokens (snd (session_spend_tokens vid amt sdb)))
        = map tokens_earned (s_reward_tokens sdb)
   \<and> ledgers_non_decreasing (reward_tokens db) (reward_tokens (snd (spend_tokens vid None db)))
   \<and> ledgers_non_decreasing (s_reward_tokens sdb)
        (s_reward_tokens (snd (session_spend_tokens vid None sdb)))
   \<and> (0 \<le> amount \<longrightarrow>
        ledgers_non_decreasing (reward_tokens db)
          (reward_tokens (snd (spend_tokens vid (Some amount) db)))
        \<and> ledgers_non_decreasing (s_reward_tokens sdb)
            (s_reward_tokens (snd (session_spend_tokens vid (Some amount) sdb))))"
  using process_sensor_data_ledgers [of db nm d] session_process_sensor_data_ledgers [of sdb sd]
    spend_tokens_earned_unchanged [of vid amt db]
    session_spend_tokens_earned_unchanged [of vid amt sdb]
    spend_tokens_absent_amount(1) [of db vid] spend_tokens_absent_amount(2) [of sdb vid]
    spend_tokens_ledgers [of amount db vid] session_spend_tokens_ledgers [of amount sdb vid]
  by blast

theorem ledger_counters_non_decreasing_witness:
  "(0::int) \<le> 3
   \<and> reward_tokens (snd (spend_tokens ''V1'' (Some 3) ledger_db))
       = [\<lparr>rt_vehicle = 0, tokens_earned = 10, tokens_spent = 10\<rparr>]
   \<and> ledgers_non_decreasing (reward_tokens ledger_db)
        (reward_tokens (snd (spend_tokens ''V1'' (Some 3) ledger_db)))
   \<and> ledgers_non_decreasing (s_reward_tokens ledger_session_db)
        (s_reward_tokens (snd (session_spend_tokens ''V1'' (Some 3) ledger_session_db)))"
proof -
  have h: "(0::int) \<le> 3" by simp
  have r: "reward_tokens (snd (spend_tokens ''V1'' (Some 3) ledger_db))
       = [\<lparr>rt_vehicle = 0, tokens_earned = 10, tokens_spent = 10\<rparr>]"
    by (simp add: spend_tokens_found [OF sample_lookups(1,2)] Let_def tokens_available_def)
      (simp add: ledger_db_def)
  from ledger_counters_non_decreasing [where amount = 3 and db = ledger_db
      and sdb = ledger_session_db and vid = "''V1''" and nm = exact_numerics
      and d = horn_event and sd = speeding_event and amt = None] h r
  show ?thesis by blast
qed

section \<open>Records created by the sensor endpoints\<close>

lemma new_compliance_record_fields:
  "speed_limit (new_compliance_record d v veh ts) =
     (if sd_sign_type d = ''speed_limit''
      then Some (case sd_drive_value d of None \<Rightarrow> 0 | Some n \<Rightarrow> n) else None)"
  "actual_speed (new_compliance_record d v veh ts) = speed_limit (new_compliance_record d v veh ts)"
  "violation_type (new_compliance_record d v veh ts) = ''no_violation''"
  "severity (new_compliance_record d v veh ts) = ''low''"
  "vehicle (new_compliance_record d v veh ts) = Some v"
  by (simp_all add: new_compliance_record_def Let_def)


lemma horn_seatbelt_prepare_save [simp]:
  "horn_penalty (prepare_save r) = horn_penalty r"
  "seatbelt_penalty (prepare_save r) = seatbelt_penalty r"
  by (simp_all add: horn_penalty_def seatbelt_penalty_def prepare_save_def)





section \<open>Violation classification in the sensor flow\<close>

lemma process_sensor_data_no_violation:
  assumes "\<forall>r\<in>set (compliance_records db). violation_type r = ''no_violation''"
  shows "\<forall>r\<in>set (compliance_records (snd (process_sensor_data nm d db))).
           violation_type r = ''no_violation''"
proof -
  obtain v veh vtbl where g: "get_or_create_vehicle (sd_vehicle_id d) (vehicles db) = (v, veh, vtbl)"
    by (metis prod_cases3)
  show ?thesis
    unfolding process_sensor_data_records [OF g]
    using assms by (simp add: new_compliance_record_fields)
qed

lemma run_sensor_events_no_violation:
  assumes "\<forall>r\<in>set (compliance_records db). violation_type r = ''no_violation''"
  shows "\<forall>r\<in>set (compliance_records (run_sensor_events nm ds db)).
           violation_type r = ''no_violation''"
  using assms
proof (induction ds arbitrary: db)
  case Nil
  then show ?case by (simp add: run_sensor_events_def)
next
  case (Cons d ds)
  have "\<forall>r\<in>set (compliance_records (run_sensor_events nm ds (snd (process_sensor_data nm d db)))).
           violation_type r = ''no_violation''"
    by (rule Cons.IH) (rule process_sensor_data_no_violation [OF Cons.prems])
  then show ?case by (simp add: run_sensor_events_def)
qed

lemma total_violations_no_violation:
  assumes "\<forall>r\<in>set (compliance_records db). violation_type r = ''no_violation''"
  shows "total_violations db v = 0"
proof -
  have "filter (\<lambda>r. vehicle r = Some v
          \<and> violation_type r \<in> set [''speed_violation'', ''horn_violation'', ''seatbelt_violation''])
       (compliance_records db) = []"
    using assms by (auto simp: filter_empty_conv)
  then show ?thesis by (simp add: total_violations_def)
qed

lemma compliance_rate_no_violations:
  assumes "\<And>t. 0 < t \<Longrightarrow> rate_round nm t 0 = 100"
    and "total_violations db v = 0"
  shows "compliance_rate nm db v = 100"
proof (cases "total_trips db v = 0")
  case True
  then show ?thesis by (simp add: compliance_rate_def)
next
  case False
  have "0 \<le> total_trips db v" by (simp add: total_trips_def)
  with False have "0 < total_trips db v" by simp
  then have "rate_round nm (total_trips db v) 0 = 100" by (rule assms(1))
  with False assms(2) show ?thesis by (simp add: compliance_rate_def)
qed

lemma exact_rate_no_violations:
  assumes "0 < t"
  shows "rate_round exact_numerics t 0 = 100"
proof -
  have "t \<noteq> 0" using assms by simp
  then show ?thesis
    by (simp add: exact_numerics_def round2_def round_half_even_def)
qed

text \<open>
  C9. A record created by the vehicle-keyed sensor endpoint keeps the field defaults
  \<open>violation_type = no_violation\<close> and \<open>severity = low\<close>: the view does not pass the
  two columns and \<open>save\<close> does not touch them. So after any sequence of sensor events
  on a database whose records all carry \<open>no_violation\<close>, every record still does,
  and every vehicle has \<open>total_violations = 0\<close> and \<open>compliance_rate = 100\<close>,
  whatever the scores of the records are. The rate uses the fact of float arithmetic
  that \<^verbatim>\<open>round(((t - 0) / t) * 100, 2)\<close> is 100.0 for a positive count \<open>t\<close>.
\<close>

theorem sensor_flow_keeps_no_violation:
  assumes "\<And>t. 0 < t \<Longrightarrow> rate_round nm t 0 = 100"
    and "\<forall>r\<in>set (compliance_records db). violation_type r = ''no_violation''"
  shows "(\<exists>r. compliance_records (snd (process_sensor_data nm d db)) = compliance_records db @ [r]
            \<and> violation_type r = ''no_violation'' \<and> severity r = ''low'')
       \<and> violation_type (prepare_save x) = violation_type x
       \<and> severity (prepare_save x) = severity x
       \<and> (\<forall>r\<in>set (compliance_records (run_sensor_events nm ds db)).
             violation_type r = ''no_violation'')
       \<and> total_violations (run_sensor_events nm ds db) v = 0
       \<and> compliance_rate nm (run_sensor_events nm ds db) v = 100"
proof -
  obtain w veh vtbl where g: "get_or_create_vehicle (sd_vehicle_id d) (vehicles db) = (w, veh, vtbl)"
    by (metis prod_cases3)
  have created: "\<exists>r. compliance_records (snd (process_sensor_data nm d db)) = compliance_records db @ [r]
            \<and> violation_type r = ''no_violation'' \<and> severity r = ''low''"
    unfolding process_sensor_data_records [OF g]
    by (simp add: new_compliance_record_fields)
  have inv: "\<forall>r\<in>set (compliance_records (run_sensor_events nm ds db)).
             violation_type r = ''no_violation''"
    by (rule run_sensor_events_no_violation [OF assms(2)])
  have tv: "total_violations (run_sensor_events nm ds db) v = 0"
    by (rule total_violations_no_violation [OF inv])
  have "compliance_rate nm (run_sensor_events nm ds db) v = 100"
    by (rule compliance_rate_no_violations [OF assms(1) tv])
  with created inv tv show ?thesis by simp
qed

theorem sensor_flow_keeps_no_violation_witness:
  "map compliance_score (compliance_records (run_sensor_events exact_numerics [horn_event] empty_db))
     = [60]
   \<and> map violation_type (compliance_records (run_sensor_events exact_numerics [horn_event] empty_db))
     = [''no_violation'']
   \<and> total_violations (run_sensor_events exact_numerics [horn_event] empty_db) 0 = 0
   \<and> compliance_rate exact_numerics (run_sensor_events exact_numerics [horn_event] empty_db) 0 = 100"
proof -
  have e: "\<forall>r\<in>set (compliance_records empty_db). violation_type r = ''no_violation''"
    by (simp add: empty_db_def)
  have recs: "compliance_records (run_sensor_events exact_numerics [horn_event] empty_db)
      = [prepare_save (new_compliance_record horn_event 0 sample_vehicle 0)]"
    by (simp add: run_sensor_events_def process_sensor_data_records [OF sample_event_lookups(1)])
      (simp add: empty_db_def)
  have score: "calculate_compliance_score (new_compliance_record horn_event 0 sample_vehicle 0) = 60"
    by (simp add: new_compliance_record_def horn_event_def sample_vehicle_def
        calculate_compliance_score_def truthy_def)
  from sensor_flow_keeps_no_violation [OF exact_rate_no_violations e,
      of horn_event _ "[horn_event]" 0]
  show ?thesis
    unfolding recs using score by (simp add: new_compliance_record_fields)
qed

text \<open>
  C2 against the code. A horn event in a no-horn zone by a new (four-wheeler) vehicle
  carries the horn penalty and the seatbelt penalty, scores 60, and is stored and
  reported as \<open>no_violation\<close>: nothing in the view or in \<open>save\<close> classifies it.
\<close>

theorem horn_violation_stored_as_no_violation:
  "(\<exists>r. compliance_records (snd (process_sensor_data nm horn_event empty_db)) = [r]
       \<and> horn_penalty r = 15 \<and> seatbelt_penalty r = 25 \<and> compliance_score r = 60
       \<and> violation_type r = ''no_violation'')
   \<and> (\<exists>res. fst (process_sensor_data nm horn_event empty_db) = Created res
       \<and> res_compliance_score res = 60 \<and> \<not> violation_detected res)"
proof
  show "\<exists>r. compliance_records (snd (process_sensor_data nm horn_event empty_db)) = [r]
       \<and> horn_penalty r = 15 \<and> seatbelt_penalty r = 25 \<and> compliance_score r = 60
       \<and> violation_type r = ''no_violation''"
    unfolding process_sensor_data_records [OF sample_event_lookups(1)]
    by (simp add: empty_db_def new_compliance_record_def horn_event_def sample_vehicle_def
        calculate_compliance_score_def truthy_def horn_penalty_def seatbelt_penalty_def
        prepare_save_def)
next
  have "calculate_compliance_score
      (new_compliance_record horn_event 0 sample_vehicle (length (traffic_signs empty_db))) = 60"
    by (simp add: new_compliance_record_def horn_event_def sample_vehicle_def
        calculate_compliance_score_def truthy_def)
  then show "\<exists>res. fst (process_sensor_data nm horn_event empty_db) = Created res
       \<and> res_compliance_score res = 60 \<and> \<not> violation_detected res"
    using process_sensor_data_response [OF sample_event_lookups(1,2), of nm] by auto
qed

section \<open>Vehicle aggregates\<close>






section \<open>Leaderboard ranking\<close>

lemma fold_update_length:
  "length (fold (\<lambda>(r, i) t. t[i := f r i]) ps tbl) = length tbl"
  by (induction ps arbitrary: tbl) (auto split: prod.splits)

lemma fold_update_other:
  assumes "j \<notin> set (map snd ps)"
  shows "fold (\<lambda>(r, i) t. t[i := f r i]) ps tbl ! j = tbl ! j"
  using assms by (induction ps arbitrary: tbl) (auto split: prod.splits)

lemma fold_update_nth:
  assumes "distinct is" and "length rs = length is" and "\<forall>i\<in>set is. i < length tbl"
    and "k < length is"
  shows "fold (\<lambda>(r, i) t. t[i := f r i]) (zip rs is) tbl ! (is ! k) = f (rs ! k) (is ! k)"
  using assms
proof (induction "is" arbitrary: rs tbl k)
  case Nil
  then show ?case by simp
next
  case (Cons i "is")
  from Cons.prems(2) obtain r rs' where rs: "rs = r # rs'" "length rs' = length is"
    by (cases rs) auto
  show ?case
  proof (cases k)
    case 0
    have "i \<notin> set (map snd (zip rs' is))"
      using Cons.prems(1) rs(2) by simp
    then have "fold (\<lambda>(r, i) t. t[i := f r i]) (zip rs' is) (tbl[i := f r i]) ! i
        = tbl[i := f r i] ! i"
      by (rule fold_update_other)
    with 0 rs Cons.prems(3) show ?thesis by simp
  next
    case (Suc k')
    have "fold (\<lambda>(r, i) t. t[i := f r i]) (zip rs' is) (tbl[i := f r i]) ! (is ! k')
        = f (rs' ! k') (is ! k')"
      using Cons.prems Suc rs(2) by (intro Cons.IH) auto
    with Suc rs show ?thesis by simp
  qed
qed

lemma order_by_ranking_perm:
  "set (order_by_ranking lb) = {0..<length lb}"
  "distinct (order_by_ranking lb)"
  "length (order_by_ranking lb) = length lb"
  by (simp_all add: order_by_ranking_def)

lemma order_by_ranking_sorted:
  "sorted (map (\<lambda>i. ranking_key (lb ! i)) (order_by_ranking lb))"
  by (simp add: order_by_ranking_def)

lemma assign_ranks_length [simp]: "length (assign_ranks lb) = length lb"
  by (simp add: assign_ranks_def fold_update_length)

lemma assign_ranks_nth:
  assumes "k < length lb"
  shows "assign_ranks lb ! (order_by_ranking lb ! k)
     = (lb ! (order_by_ranking lb ! k))\<lparr>rank := 1 + int k\<rparr>"
proof -
  have len: "length [1..int (length lb)] = length (order_by_ranking lb)"
    by (simp add: order_by_ranking_perm)
  have bound: "\<forall>i\<in>set (order_by_ranking lb). i < length lb"
    by (simp add: order_by_ranking_perm)
  have k: "k < length (order_by_ranking lb)"
    using assms by (simp add: order_by_ranking_perm)
  have "assign_ranks lb ! (order_by_ranking lb ! k)
      = (lb ! (order_by_ranking lb ! k))\<lparr>rank := [1..int (length lb)] ! k\<rparr>"
    unfolding assign_ranks_def
    by (rule fold_update_nth [OF order_by_ranking_perm(2) len bound k])
  moreover have "[1..int (length lb)] ! k = 1 + int k"
    using assms by simp
  ultimately show ?thesis by simp
qed

lemma order_position:
  assumes "i < length lb"
  obtains k where "k < length lb" and "order_by_ranking lb ! k = i"
proof -
  have "i \<in> set (order_by_ranking lb)"
    using assms by (simp add: order_by_ranking_perm)
  then obtain k where "k < length (order_by_ranking lb)" "order_by_ranking lb ! k = i"
    by (auto simp: in_set_conv_nth)
  then show ?thesis
    using that by (simp add: order_by_ranking_perm)
qed

lemma assign_ranks_key:
  assumes "i < length lb"
  shows "ranking_key (assign_ranks lb ! i) = ranking_key (lb ! i)"
proof -
  obtain k where "k < length lb" "order_by_ranking lb ! k = i"
    using assms by (rule order_position)
  then show ?thesis
    using assign_ranks_nth [of k lb] by (simp add: ranking_key_def)
qed

lemma insort_key_cong_set:
  assumes "f x = g x" and "\<forall>y\<in>set ys. f y = g y"
  shows "insort_key f x ys = insort_key g x ys"
  using assms by (induction ys) auto

lemma sort_key_cong_set:
  assumes "\<forall>x\<in>set xs. f x = g x"
  shows "sort_key f xs = sort_key g xs"
  using assms
proof (induction xs)
  case Nil
  then show ?case by simp
next
  case (Cons x xs)
  then have "sort_key f xs = sort_key g xs" by simp
  moreover have "insort_key f x (sort_key g xs) = insort_key g x (sort_key g xs)"
    using Cons.prems by (intro insort_key_cong_set) auto
  ultimately show ?case by simp
qed

lemma order_by_ranking_assign_ranks:
  "order_by_ranking (assign_ranks lb) = order_by_ranking lb"
  unfolding order_by_ranking_def
  by (simp add: sort_key_cong_set assign_ranks_key)

lemma ranks_in_order:
  "map rank (map ((!) (assign_ranks lb)) (order_by_ranking lb)) = [1..int (length lb)]"
proof (rule nth_equalityI)
  show "length (map rank (map ((!) (assign_ranks lb)) (order_by_ranking lb)))
      = length [1..int (length lb)]"
    by (simp add: order_by_ranking_perm)
next
  fix k
  assume "k < length (map rank (map ((!) (assign_ranks lb)) (order_by_ranking lb)))"
  then have k: "k < length lb"
    by (simp add: order_by_ranking_perm)
  then show "map rank (map ((!) (assign_ranks lb)) (order_by_ranking lb)) ! k
      = [1..int (length lb)] ! k"
    by (simp add: order_by_ranking_perm assign_ranks_nth)
qed

lemma ranks_before_key: "ranks_before A B \<longleftrightarrow> ranking_key A < ranking_key B"
  by (auto simp: ranks_before_def ranking_key_def)

lemma assign_ranks_respects_key:
  assumes "i < length lb" and "j < length lb"
    and "ranking_key (lb ! i) < ranking_key (lb ! j)"
  shows "rank (assign_ranks lb ! i) < rank (assign_ranks lb ! j)"
proof -
  obtain a where a: "a < length lb" "order_by_ranking lb ! a = i"
    using assms(1) by (rule order_position)
  obtain b where b: "b < length lb" "order_by_ranking lb ! b = j"
    using assms(2) by (rule order_position)
  have "a < b"
  proof (rule ccontr)
    assume "\<not> a < b"
    then have "b \<le> a" by simp
    moreover have "a < length (map (\<lambda>i. ranking_key (lb ! i)) (order_by_ranking lb))"
      using a(1) by (simp add: order_by_ranking_perm)
    ultimately have "map (\<lambda>i. ranking_key (lb ! i)) (order_by_ranking lb) ! b
        \<le> map (\<lambda>i. ranking_key (lb ! i)) (order_by_ranking lb) ! a"
      using order_by_ranking_sorted [of lb] by (intro sorted_nth_mono)
    then have "ranking_key (lb ! j) \<le> ranking_key (lb ! i)"
      using a b by (simp add: order_by_ranking_perm)
    with assms(3) show False by simp
  qed
  moreover have "rank (assign_ranks lb ! i) = 1 + int a"
    using assign_ranks_nth [OF a(1)] a(2) by simp
  moreover have "rank (assign_ranks lb ! j) = 1 + int b"
    using assign_ranks_nth [OF b(1)] b(2) by simp
  ultimately show ?thesis by simp
qed

lemma assign_ranks_ranks_before:
  assumes "A \<in> set (assign_ranks lb)" and "B \<in> set (assign_ranks lb)"
    and "ranks_before A B"
  shows "rank A < rank B"
proof -
  from assms(1) obtain i where i: "i < length lb" "assign_ranks lb ! i = A"
    by (auto simp: in_set_conv_nth)
  from assms(2) obtain j where j: "j < length lb" "assign_ranks lb ! j = B"
    by (auto simp: in_set_conv_nth)
  have "ranking_key (lb ! i) < ranking_key (lb ! j)"
    using assms(3) i j by (simp add: ranks_before_key flip: assign_ranks_key)
  then show ?thesis
    using assign_ranks_respects_key [OF i(1) j(1)] i(2) j(2) by simp
qed

lemma assign_ranks_rank_set:
  "set (map rank (assign_ranks lb)) = {1..int (length lb)}"
proof -
  have "set (map ((!) (assign_ranks lb)) (order_by_ranking lb)) = set (assign_ranks lb)"
    by (simp add: order_by_ranking_perm flip: set_conv_nth [of "assign_ranks lb", simplified])
      (auto simp: set_conv_nth)
  then have "set (map rank (assign_ranks lb))
      = set (map rank (map ((!) (assign_ranks lb)) (order_by_ranking lb)))"
    by (simp only: set_map)
  then show ?thesis
    by (simp only: ranks_in_order) simp
qed

lemma assign_ranks_rank_distinct: "distinct (map rank (assign_ranks lb))"
proof -
  have "card (set (map rank (assign_ranks lb))) = length (map rank (assign_ranks lb))"
    by (simp only: assign_ranks_rank_set) simp
  then show ?thesis by (rule card_distinct)
qed

text \<open>
  C6. After \<open>update_all_rankings\<close> the leaderboard entries carry the ranks 1..N,
  each once, assigned along the order of the sort on total trips descending, then total
  violations ascending, then compliance rate descending: read in that order the ranks
  are 1, 2, ..., N, and an entry that comes first by these criteria has the strictly
  smaller rank. In particular an entry with more trips has a smaller rank than one with
  fewer, whatever their compliance rates.
\<close>

theorem update_all_rankings_spec:
  "map rank (map ((!) (leaderboard (update_all_rankings nm db)))
        (order_by_ranking (leaderboard (update_all_rankings nm db))))
     = [1..int (length (leaderboard (update_all_rankings nm db)))]
   \<and> sorted (map ranking_key (map ((!) (leaderboard (update_all_rankings nm db)))
        (order_by_ranking (leaderboard (update_all_rankings nm db)))))
   \<and> set (map rank (leaderboard (update_all_rankings nm db)))
       = {1..int (length (leaderboard (update_all_rankings nm db)))}
   \<and> distinct (map rank (leaderboard (update_all_rankings nm db)))
   \<and> (\<forall>A\<in>set (leaderboard (update_all_rankings nm db)).
       \<forall>B\<in>set (leaderboard (update_all_rankings nm db)).
         (ranks_before A B \<longrightarrow> rank A < rank B)
         \<and> (lb_total_trips A > lb_total_trips B \<longrightarrow> rank A < rank B))"
proof -
  define lb where "lb = fold (refresh_entry nm db) (vehicles_with_records db) (leaderboard db)"
  have L: "leaderboard (update_all_rankings nm db) = assign_ranks lb"
    by (simp add: update_all_rankings_def lb_def)
  have order: "map rank (map ((!) (assign_ranks lb)) (order_by_ranking (assign_ranks lb)))
      = [1..int (length (assign_ranks lb))]"
    by (simp only: order_by_ranking_assign_ranks ranks_in_order assign_ranks_length)
  have "sorted (map (\<lambda>i. ranking_key (assign_ranks lb ! i)) (order_by_ranking (assign_ranks lb)))"
    by (rule order_by_ranking_sorted)
  then have srt: "sorted (map ranking_key (map ((!) (assign_ranks lb))
      (order_by_ranking (assign_ranks lb))))"
    by (simp add: comp_def)
  have rset: "set (map rank (assign_ranks lb)) = {1..int (length (assign_ranks lb))}"
    by (simp only: assign_ranks_rank_set assign_ranks_length)
  have dist: "distinct (map rank (assign_ranks lb))"
    by (rule assign_ranks_rank_distinct)
  have pair: "(ranks_before A B \<longrightarrow> rank A < rank B)
         \<and> (lb_total_trips A > lb_total_trips B \<longrightarrow> rank A < rank B)"
    if "A \<in> set (assign_ranks lb)" "B \<in> set (assign_ranks lb)" for A B
  proof -
    have "lb_total_trips A > lb_total_trips B \<Longrightarrow> ranks_before A B"
      by (simp add: ranks_before_def)
    then show ?thesis
      using assign_ranks_ranks_before [OF that] by blast
  qed
  show ?thesis
    unfolding L using order srt rset dist pair by blast
qed

lemma ranking_db_leaderboard:
  "leaderboard (update_all_rankings exact_numerics ranking_db) =
     [\<lparr>lb_vehicle = 0, rank = 2, lb_total_violations = 0, lb_total_trips = 3,
       lb_compliance_rate = 100, lb_average_compliance_score = 100, total_tokens_earned = 0\<rparr>,
      \<lparr>lb_vehicle = 1, rank = 1, lb_total_violations = 1, lb_total_trips = 4,
       lb_compliance_rate = 75, lb_average_compliance_score = 100, total_tokens_earned = 0\<rparr>]"
  by code_simp

theorem update_all_rankings_spec_witness:
  "lb_total_trips (leaderboard (update_all_rankings exact_numerics ranking_db) ! 1)
     > lb_total_trips (leaderboard (update_all_rankings exact_numerics ranking_db) ! 0)
   \<and> lb_compliance_rate (leaderboard (update_all_rankings exact_numerics ranking_db) ! 1)
     < lb_compliance_rate (leaderboard (update_all_rankings exact_numerics ranking_db) ! 0)
   \<and> rank (leaderboard (update_all_rankings exact_numerics ranking_db) ! 1)
     < rank (leaderboard (update_all_rankings exact_numerics ranking_db) ! 0)
   \<and> map rank (leaderboard (update_all_rankings exact_numerics ranking_db)) = [2, 1]"
proof -
  let ?L = "leaderboard (update_all_rankings exact_numerics ranking_db)"
  have mem: "?L ! 1 \<in> set ?L" "?L ! 0 \<in> set ?L"
    by (simp_all add: ranking_db_leaderboard)
  have trips: "lb_total_trips (?L ! 1) > lb_total_trips (?L ! 0)"
    by (simp add: ranking_db_leaderboard)
  have rate: "lb_compliance_rate (?L ! 1) < lb_compliance_rate (?L ! 0)"
    by (simp add: ranking_db_leaderboard)
  from update_all_rankings_spec [of exact_numerics ranking_db] mem trips
  have "rank (?L ! 1) < rank (?L ! 0)"
    by blast
  moreover have "map rank ?L = [2, 1]"
    by (simp add: ranking_db_leaderboard)
  ultimately show ?thesis
    using trips rate by blast
qed

end
